theory Spec2Isabelle
  imports Complex_Main "HOL-Library.Word"
begin

section \<open>Grad-CAM (src/gradcam.py): numbers, arrays and errors\<close>

text \<open>
  The Python exceptions that the modelled code paths raise. A result is
  \<open>py_error + 'a\<close>, with \<open>Inl\<close> the exception.
\<close>

datatype py_error = AttributeError | IndexError | RuntimeError | ValueError

text \<open>
  A numpy or torch floating-point value. Finite values are idealised as reals (no
  rounding, no overflow, no signed zero); the IEEE special values that the arithmetic
  of \<open>generate_cam\<close> can produce, the infinities and NaN, are kept, with numpy's rules
  for them: an invalid operation such as \<open>0/0\<close> is NaN and raises nothing.
\<close>

datatype npfloat = Fin real | PInf | NInf | NaN

fun fneg :: "npfloat \<Rightarrow> npfloat" where
  "fneg (Fin x) = Fin (- x)"
| "fneg PInf = NInf"
| "fneg NInf = PInf"
| "fneg NaN = NaN"

fun fadd :: "npfloat \<Rightarrow> npfloat \<Rightarrow> npfloat" where
  "fadd NaN b = NaN"
| "fadd a NaN = NaN"
| "fadd (Fin x) (Fin y) = Fin (x + y)"
| "fadd PInf NInf = NaN"
| "fadd NInf PInf = NaN"
| "fadd PInf b = PInf"
| "fadd a PInf = PInf"
| "fadd NInf b = NInf"
| "fadd a NInf = NInf"

definition fsub :: "npfloat \<Rightarrow> npfloat \<Rightarrow> npfloat" where
  "fsub a b = fadd a (fneg b)"

fun fmul :: "npfloat \<Rightarrow> npfloat \<Rightarrow> npfloat" where
  "fmul NaN b = NaN"
| "fmul a NaN = NaN"
| "fmul (Fin x) (Fin y) = Fin (x * y)"
| "fmul (Fin x) PInf = (if x = 0 then NaN else if 0 < x then PInf else NInf)"
| "fmul (Fin x) NInf = (if x = 0 then NaN else if 0 < x then NInf else PInf)"
| "fmul PInf (Fin y) = (if y = 0 then NaN else if 0 < y then PInf else NInf)"
| "fmul NInf (Fin y) = (if y = 0 then NaN else if 0 < y then NInf else PInf)"
| "fmul PInf PInf = PInf"
| "fmul NInf NInf = PInf"
| "fmul PInf NInf = NInf"
| "fmul NInf PInf = NInf"

fun fdiv :: "npfloat \<Rightarrow> npfloat \<Rightarrow> npfloat" where
  "fdiv NaN b = NaN"
| "fdiv a NaN = NaN"
| "fdiv (Fin x) (Fin y) =
     (if y \<noteq> 0 then Fin (x / y)
      else if x = 0 then NaN
      else if 0 < x then PInf else NInf)"
| "fdiv (Fin x) b = Fin 0"
| "fdiv PInf (Fin y) = (if 0 \<le> y then PInf else NInf)"
| "fdiv NInf (Fin y) = (if 0 \<le> y then NInf else PInf)"
| "fdiv a b = NaN"

text \<open>The order of the values that are not NaN.\<close>

fun fle :: "npfloat \<Rightarrow> npfloat \<Rightarrow> bool" where
  "fle NaN b = False"
| "fle a NaN = False"
| "fle NInf b = True"
| "fle a PInf = True"
| "fle (Fin x) (Fin y) = (x \<le> y)"
| "fle a b = False"

text \<open>\<open>np.maximum\<close> and \<open>np.minimum\<close> on two values: NaN if either is NaN.\<close>

definition fmaximum :: "npfloat \<Rightarrow> npfloat \<Rightarrow> npfloat" where
  "fmaximum a b = (if a = NaN \<or> b = NaN then NaN else if fle a b then b else a)"

definition fminimum :: "npfloat \<Rightarrow> npfloat \<Rightarrow> npfloat" where
  "fminimum a b = (if a = NaN \<or> b = NaN then NaN else if fle a b then a else b)"

text \<open>
  Arrays are nested lists in row-major order: a 2-D array is the list of its rows, a
  3-D array \<open>(C, H, W)\<close> the list of its channels, a 4-D tensor \<open>(N, C, H, W)\<close> the list
  of its batch elements. The rank is fixed by the type: the feature maps of the body
  are 4-D, the flattened features and the class scores 2-D.
\<close>

type_synonym array1 = "npfloat list"
type_synonym array2 = "npfloat list list"
type_synonym array3 = "npfloat list list list"
type_synonym tensor4 = "npfloat list list list list"

definition map2d :: "('a \<Rightarrow> 'b) \<Rightarrow> 'a list list \<Rightarrow> 'b list list" where
  "map2d f a = map (map f) a"

definition map3d :: "('a \<Rightarrow> 'b) \<Rightarrow> 'a list list list \<Rightarrow> 'b list list list" where
  "map3d f a = map (map2d f) a"

text \<open>
  \<open>a.shape[1]\<close>, \<open>a.shape[2]\<close> and \<open>a.shape[3]\<close> of a nested list: the length of the first
  element at that depth. (A nested list does not record the dimensions below an empty
  one; they read as 0.)
\<close>

definition dim1 :: "'a list list \<Rightarrow> nat" where
  "dim1 a = (case a of [] \<Rightarrow> 0 | r # _ \<Rightarrow> length r)"

definition dim2 :: "'a list list list \<Rightarrow> nat" where
  "dim2 a = (case a of [] \<Rightarrow> 0 | r # _ \<Rightarrow> dim1 r)"

definition dim3 :: "'a list list list list \<Rightarrow> nat" where
  "dim3 a = (case a of [] \<Rightarrow> 0 | r # _ \<Rightarrow> dim2 r)"

text \<open>A rectangular 2-D array of \<open>h\<close> rows and \<open>w\<close> columns; a 3-D array of \<open>c\<close> such channels.\<close>

definition rect2 :: "nat \<Rightarrow> nat \<Rightarrow> 'a list list \<Rightarrow> bool" where
  "rect2 h w a = (length a = h \<and> list_all (\<lambda>r. length r = w) a)"

definition rect3 :: "nat \<Rightarrow> nat \<Rightarrow> nat \<Rightarrow> 'a list list list \<Rightarrow> bool" where
  "rect3 c h w a = (length a = c \<and> list_all (rect2 h w) a)"

text \<open>Two tensors have the same shape: the nesting has the same lengths throughout.\<close>

definition same_shape2 :: "'a list list \<Rightarrow> 'b list list \<Rightarrow> bool" where
  "same_shape2 a b = (map length a = map length b)"

definition same_shape4 :: "'a list list list list \<Rightarrow> 'b list list list list \<Rightarrow> bool" where
  "same_shape4 a b = (map (map (map length)) a = map (map (map length)) b)"

section \<open>The numpy steps of generate\_cam (lines 123 to 137)\<close>

text \<open>\<open>a[0]\<close>: the first batch element; IndexError on an empty batch.\<close>

definition index0 :: "'a list \<Rightarrow> py_error + 'a" where
  "index0 a = (case a of [] \<Rightarrow> Inl IndexError | x # _ \<Rightarrow> Inr x)"

text \<open>
  Line 129, \<open>np.mean(guided_gradients, axis=(1, 2))\<close>: for each channel the sum of all its
  entries divided by their number (\<open>0/0\<close>, NaN, for a channel with no entry).
\<close>

definition fsum :: "npfloat list \<Rightarrow> npfloat" where
  "fsum xs = foldl fadd (Fin 0) xs"

definition np_mean_hw :: "array3 \<Rightarrow> array1" where
  "np_mean_hw g = map (\<lambda>ch. fdiv (fsum (concat ch)) (Fin (real (length (concat ch))))) g"

text \<open>Lines 124 and 125: the gradient array, negated when \<open>counterfactual\<close> is set.\<close>

definition guided :: "bool \<Rightarrow> array3 \<Rightarrow> array3" where
  "guided counterfactual g = (if counterfactual then map3d fneg g else g)"

definition cam_weights :: "bool \<Rightarrow> array3 \<Rightarrow> array1" where
  "cam_weights counterfactual g = np_mean_hw (guided counterfactual g)"

text \<open>Line 131, \<open>np.ones(target.shape[1:])\<close>: ones in the shape of one channel of \<open>target\<close>.\<close>

definition np_ones :: "array3 \<Rightarrow> array2" where
  "np_ones target = (case target of [] \<Rightarrow> [] | ch # _ \<Rightarrow> map2d (\<lambda>_. Fin 1) ch)"

text \<open>
  Lines 133 and 134, the loop \<open>for i, w in enumerate(weights): cam += w * target[i, :, :]\<close>.
  \<open>target[i]\<close> raises IndexError when there are more weights than channels. The channels
  of one array have one shape, that of \<open>cam\<close>, so the sum is elementwise.
\<close>

definition scale2 :: "npfloat \<Rightarrow> array2 \<Rightarrow> array2" where
  "scale2 w a = map2d (fmul w) a"

definition iadd2 :: "array2 \<Rightarrow> array2 \<Rightarrow> array2" where
  "iadd2 cam b = map2 (map2 fadd) cam b"

fun cam_loop :: "(nat \<times> npfloat) list \<Rightarrow> array3 \<Rightarrow> array2 \<Rightarrow> py_error + array2" where
  "cam_loop [] target cam = Inr cam"
| "cam_loop ((i, w) # rest) target cam =
     (if i < length target then cam_loop rest target (iadd2 cam (scale2 w (target ! i)))
      else Inl IndexError)"

text \<open>Line 135, \<open>np.maximum(cam, 0)\<close>.\<close>

definition rectify :: "array2 \<Rightarrow> array2" where
  "rectify cam = map2d (\<lambda>v. fmaximum v (Fin 0)) cam"

text \<open>Lines 131 to 135 together: the accumulator before the normalization.\<close>

definition accumulate :: "array1 \<Rightarrow> array3 \<Rightarrow> py_error + array2" where
  "accumulate weights target =
     (case cam_loop (enumerate 0 weights) target (np_ones target) of
        Inl e \<Rightarrow> Inl e
      | Inr cam \<Rightarrow> Inr (rectify cam))"

text \<open>
  \<open>np.min\<close> and \<open>np.max\<close> of a whole array: ValueError on an array with no entry, NaN when
  an entry is NaN.
\<close>

definition np_min :: "array2 \<Rightarrow> py_error + npfloat" where
  "np_min a = (case concat a of [] \<Rightarrow> Inl ValueError | v # vs \<Rightarrow> Inr (foldl fminimum v vs))"

definition np_max :: "array2 \<Rightarrow> py_error + npfloat" where
  "np_max a = (case concat a of [] \<Rightarrow> Inl ValueError | v # vs \<Rightarrow> Inr (foldl fmaximum v vs))"

text \<open>
  Line 136, \<open>(cam - np.min(cam)) / (np.max(cam) - np.min(cam))\<close>. There is no test of the
  divisor: the division is numpy's, which raises nothing.
\<close>

definition normalize :: "array2 \<Rightarrow> py_error + array2" where
  "normalize cam =
     (case np_min cam of
        Inl e \<Rightarrow> Inl e
      | Inr lo \<Rightarrow>
          (case np_max cam of
             Inl e \<Rightarrow> Inl e
           | Inr hi \<Rightarrow> Inr (map2d (\<lambda>v. fdiv (fsub v lo) (fsub hi lo)) cam)))"

text \<open>
  What the platform decides: the byte that the cast to \<open>uint8\<close> gives a value it cannot
  represent (NaN, an infinity, a value outside the byte range; numpy leaves it to the
  C compiler), the pixels that Pillow's ANTIALIAS filter computes (the image, the new
  size \<open>(width, height)\<close>, and the column and row of the pixel asked for), and the
  devices tensors can be moved to.
\<close>

record platform =
  cast_invalid :: "npfloat \<Rightarrow> 8 word"
  antialias :: "8 word list list \<Rightarrow> nat \<times> nat \<Rightarrow> nat \<Rightarrow> nat \<Rightarrow> 8 word"
  device_ok :: "string \<Rightarrow> bool"

text \<open>
  Line 137, \<open>np.uint8(cam * 255)\<close>: a value with its integer part in the byte range is
  truncated towards zero.
\<close>

definition np_uint8 :: "platform \<Rightarrow> npfloat \<Rightarrow> 8 word" where
  "np_uint8 env v =
     (case v of
        Fin x \<Rightarrow>
          (if - 1 < x \<and> x < 256 then word_of_int (if 0 \<le> x then \<lfloor>x\<rfloor> else \<lceil>x\<rceil>)
           else cast_invalid env v)
      | _ \<Rightarrow> cast_invalid env v)"

definition quantize :: "platform \<Rightarrow> array2 \<Rightarrow> 8 word list list" where
  "quantize env cam = map2d (\<lambda>v. np_uint8 env (fmul v (Fin 255))) cam"

section \<open>The resize through Pillow (lines 138 and 139)\<close>

text \<open>
  A Pillow image of mode L: its \<open>size\<close> is \<open>(width, height)\<close>, its pixels are stored by
  rows. \<open>Image.fromarray\<close> of a 2-D byte array of shape \<open>(h, w)\<close> has size \<open>(w, h)\<close>, and the
  array of an image has shape \<open>(height, width)\<close>.
\<close>

record image =
  width :: nat
  height :: nat
  pixels :: "8 word list list"

definition fromarray :: "8 word list list \<Rightarrow> image" where
  "fromarray a = \<lparr> width = dim1 a, height = length a, pixels = a \<rparr>"

text \<open>
  \<open>Image.resize(size, Image.ANTIALIAS)\<close>: the first component of \<open>size\<close> is the new width,
  the second the new height; Pillow refuses a size below 1 with ValueError.
\<close>

definition resize :: "platform \<Rightarrow> image \<Rightarrow> nat \<times> nat \<Rightarrow> py_error + image" where
  "resize env img new_size =
     (case new_size of (w, h) \<Rightarrow>
        if w < 1 \<or> h < 1 then Inl ValueError
        else Inr \<lparr> width = w, height = h,
                   pixels = map (\<lambda>y. map (\<lambda>x. antialias env (pixels img) (w, h) x y) [0..<w]) [0..<h] \<rparr>)"

text \<open>\<open>np.uint8(image) / 255\<close>: the array of the image, each byte divided by 255.\<close>

definition asarray_div255 :: "image \<Rightarrow> array2" where
  "asarray_div255 img = map2d (\<lambda>b. Fin (real (unat b) / 255)) (pixels img)"

text \<open>
  Lines 129 to 139: from the two numpy arrays and \<open>input_image.shape[2]\<close>,
  \<open>input_image.shape[3]\<close> to the returned map.
\<close>

definition cam_of_arrays ::
  "platform \<Rightarrow> bool \<Rightarrow> array3 \<Rightarrow> array3 \<Rightarrow> nat \<Rightarrow> nat \<Rightarrow> py_error + array2" where
  "cam_of_arrays env counterfactual guided_gradients target shape2 shape3 =
     (case accumulate (cam_weights counterfactual guided_gradients) target of
        Inl e \<Rightarrow> Inl e
      | Inr cam \<Rightarrow>
          (case normalize cam of
             Inl e \<Rightarrow> Inl e
           | Inr cam1 \<Rightarrow>
               (case resize env (fromarray (quantize env cam1)) (shape2, shape3) of
                  Inl e \<Rightarrow> Inl e
                | Inr img \<Rightarrow> Inr (asarray_div255 img))))"

section \<open>Modules and autograd\<close>

text \<open>
  A torch module, by what it computes in evaluation mode, the only mode in which this
  code calls one: \<open>module(x)\<close> on a 4-D tensor (\<open>call_features\<close>), and \<open>module(x)\<close> or
  \<open>module(x, target)\<close> on flattened 2-D features (\<open>call_head\<close>, the target \<open>None\<close> when none
  is passed); either may raise. With each goes the vector-Jacobian product that
  autograd computes for the call: from the input of the module and the gradient of its
  output, the gradient of its input. A module is a function of its arguments: it keeps
  no random state. Its outputs take part in autograd (the module has parameters that
  require gradients), so that a hook can be registered on them and \<open>backward\<close> can run.
  \<open>training\<close> is the mode flag that \<open>eval()\<close> clears.
\<close>

record nn_module =
  training :: bool
  call_features :: "tensor4 \<Rightarrow> py_error + tensor4"
  vjp_features :: "tensor4 \<Rightarrow> tensor4 \<Rightarrow> tensor4"
  call_head :: "array2 \<Rightarrow> int list option \<Rightarrow> py_error + array2"
  vjp_head :: "array2 \<Rightarrow> int list option \<Rightarrow> array2 \<Rightarrow> array2"

definition eval_mode :: "nn_module \<Rightarrow> nn_module" where
  "eval_mode m = m\<lparr> training := False \<rparr>"

text \<open>
  A model is given by the list that \<open>model.children()\<close> returns; \<open>torch.nn.Sequential\<close> of
  a list of modules has that list as its children.
\<close>

type_synonym nn_model = "nn_module list"

text \<open>
  The part of the autograd graph that the backward pass of \<open>generate_cam\<close> walks: the
  modules applied after the tensor on which the hook was registered, each with its
  input, in the order of application (\<open>None\<close> when no hook was registered); the final
  output of the body; the head and the target it was called with.
\<close>

record autograd_graph =
  hook_ops :: "(nn_module \<times> tensor4) list option"
  body_output :: tensor4
  head_module :: nn_module
  head_target :: "int list option"

section \<open>CamExtractor\<close>

record CamExtractor =
  model :: nn_model
  target_layer :: int
  head :: nn_module
  feed_target :: bool
  gradients :: "tensor4 option"

definition CamExtractor_init ::
  "nn_model \<Rightarrow> int \<Rightarrow> nn_module \<Rightarrow> bool \<Rightarrow> CamExtractor" where
  "CamExtractor_init model0 target_layer0 head0 feed_target0 =
     \<lparr> model = model0, target_layer = target_layer0, head = head0,
       feed_target = feed_target0, gradients = None \<rparr>"

definition save_gradient :: "CamExtractor \<Rightarrow> tensor4 \<Rightarrow> CamExtractor" where
  "save_gradient self grad = self\<lparr> gradients := Some grad \<rparr>"

text \<open>
  Lines 51 to 61. The loop over \<open>enumerate(children)\<close>: each module is applied to the
  running tensor; at the position equal to \<open>target_layer\<close> the hook is registered on the
  output, which becomes \<open>conv_output\<close>. The third component of the state is the record
  autograd keeps of what is applied after the hooked tensor.
\<close>

fun convolutions_loop ::
  "int \<Rightarrow> (nat \<times> nn_module) list \<Rightarrow> tensor4 \<Rightarrow> tensor4 option \<Rightarrow>
   (nn_module \<times> tensor4) list option \<Rightarrow>
   py_error + (tensor4 option \<times> tensor4 \<times> (nn_module \<times> tensor4) list option)" where
  "convolutions_loop t [] x conv_output ops = Inr (conv_output, x, ops)"
| "convolutions_loop t ((module_pos, m) # rest) x conv_output ops =
     (case call_features m x of
        Inl e \<Rightarrow> Inl e
      | Inr y \<Rightarrow>
          if int module_pos = t then convolutions_loop t rest y (Some y) (Some [])
          else convolutions_loop t rest y conv_output
                 (map_option (\<lambda>done. done @ [(m, x)]) ops))"

definition forward_pass_on_convolutions ::
  "CamExtractor \<Rightarrow> tensor4 \<Rightarrow>
   py_error + (tensor4 option \<times> tensor4 \<times> (nn_module \<times> tensor4) list option)" where
  "forward_pass_on_convolutions self x =
     convolutions_loop (target_layer self) (enumerate 0 (model self)) x None None"

text \<open>Line 69, \<open>x.view(x.size(0), -1)\<close>: each batch element flattened to one row.\<close>

definition view_flat :: "tensor4 \<Rightarrow> array2" where
  "view_flat x = map (\<lambda>a. concat (concat a)) x"

text \<open>Lines 63 to 75.\<close>

definition forward_pass ::
  "CamExtractor \<Rightarrow> tensor4 \<Rightarrow> int list \<Rightarrow>
   py_error + (tensor4 option \<times> array2 \<times> autograd_graph)" where
  "forward_pass self x target =
     (case forward_pass_on_convolutions self x of
        Inl e \<Rightarrow> Inl e
      | Inr (conv_output, y, ops) \<Rightarrow>
          (let fed = (if feed_target self then Some target else None) in
           case call_head (head self) (view_flat y) fed of
             Inl e \<Rightarrow> Inl e
           | Inr scores \<Rightarrow>
               Inr (conv_output, scores,
                    \<lparr> hook_ops = ops, body_output = y,
                      head_module = head self, head_target = fed \<rparr>)))"

section \<open>The backward pass\<close>

text \<open>
  The inverse of \<open>view_flat\<close> on gradients: a list cut into consecutive pieces of the
  given lengths, and the rows of a 2-D gradient cut back into the nesting of \<open>x\<close>.
\<close>

fun chop :: "nat list \<Rightarrow> 'a list \<Rightarrow> 'a list list" where
  "chop [] xs = []"
| "chop (n # ns) xs = take n xs # chop ns (drop n xs)"

definition unview :: "tensor4 \<Rightarrow> array2 \<Rightarrow> tensor4" where
  "unview x g = map2 (\<lambda>a row. chop (map length a) (chop (map length (concat a)) row)) x g"

text \<open>
  The gradient carried back through the modules applied after the hooked tensor, last
  applied first. Autograd checks each gradient against the shape of its tensor.
\<close>

fun backprop :: "(nn_module \<times> tensor4) list \<Rightarrow> tensor4 \<Rightarrow> py_error + tensor4" where
  "backprop [] g = Inr g"
| "backprop ((m, x) # rest) g =
     (if same_shape4 (vjp_features m x g) x then backprop rest (vjp_features m x g)
      else Inl RuntimeError)"

text \<open>
  Line 121, \<open>model_output.backward(gradient=one_hot_output, retain_graph=True)\<close>: the seed
  must have the shape of \<open>model_output\<close>. The result is the gradient with which the hook
  fires, \<open>None\<close> when no hook was registered.
\<close>

definition backward :: "autograd_graph \<Rightarrow> array2 \<Rightarrow> array2 \<Rightarrow> py_error + tensor4 option" where
  "backward gr model_output gradient =
     (if \<not> same_shape2 gradient model_output then Inl RuntimeError
      else
        (let flat = view_flat (body_output gr);
             g_flat = vjp_head (head_module gr) flat (head_target gr) gradient
         in if \<not> same_shape2 g_flat flat then Inl RuntimeError
            else
              (case hook_ops gr of
                 None \<Rightarrow> Inr None
               | Some ops \<Rightarrow>
                   (case backprop (rev ops) (unview (body_output gr) g_flat) of
                      Inl e \<Rightarrow> Inl e
                    | Inr g \<Rightarrow> Inr (Some g)))))"

section \<open>GradCam\<close>

record GradCam =
  gradcam_model :: nn_model
  separate_head :: nn_module
  extractor :: CamExtractor
  device :: "string option"

text \<open>
  Lines 82 to 96. \<open>list(model.children())[-1]\<close> raises IndexError for a model with no
  child. The default of \<open>feed_target\<close> is read before the head is separated.
\<close>

definition GradCam_init ::
  "nn_model \<Rightarrow> int \<Rightarrow> nn_module option \<Rightarrow> string option \<Rightarrow> bool option \<Rightarrow>
   py_error + GradCam" where
  "GradCam_init model0 target_layer0 separate_head0 device0 feed_target0 =
     (let feed = (case feed_target0 of
                    None \<Rightarrow> (case separate_head0 of None \<Rightarrow> False | Some _ \<Rightarrow> True)
                  | Some b \<Rightarrow> b)
      in case (case separate_head0 of
                 None \<Rightarrow>
                   (case model0 of
                      [] \<Rightarrow> Inl IndexError
                    | _ # _ \<Rightarrow> Inr (last model0, butlast model0))
               | Some h \<Rightarrow> Inr (h, model0)) of
           Inl e \<Rightarrow> Inl e
         | Inr (head1, body1) \<Rightarrow>
             Inr \<lparr> gradcam_model = map eval_mode body1,
                   separate_head = eval_mode head1,
                   extractor =
                     CamExtractor_init (map eval_mode body1) target_layer0 (eval_mode head1) feed,
                   device = device0 \<rparr>)"

text \<open>
  Line 103, \<open>torch.tensor([target_class])\<close>: an int64 tensor; a Python integer outside
  the 64-bit range is a RuntimeError.
\<close>

definition torch_tensor :: "int list \<Rightarrow> py_error + int list" where
  "torch_tensor xs =
     (if list_all (\<lambda>v. - (2 ^ 63) \<le> v \<and> v < 2 ^ 63) xs then Inr xs else Inl RuntimeError)"

text \<open>
  Lines 104 to 106 and 115, 116: \<open>.to(self.device)\<close> when a device is set. The move leaves
  the values as they are; a device that is not there is a RuntimeError.
\<close>

definition to_device :: "platform \<Rightarrow> string option \<Rightarrow> 'a \<Rightarrow> py_error + 'a" where
  "to_device env dev x =
     (case dev of
        None \<Rightarrow> Inr x
      | Some d \<Rightarrow> if device_ok env d then Inr x else Inl RuntimeError)"

text \<open>
  Lines 113 and 114: a row of \<open>model_output.size()[-1]\<close> zeros, then
  \<open>one_hot_output[0][target_class] = 1\<close>. The index is a Python integer: a negative one
  counts from the end, and one outside \<open>-n .. n-1\<close> raises IndexError.
\<close>

definition setitem :: "'a list \<Rightarrow> int \<Rightarrow> 'a \<Rightarrow> py_error + 'a list" where
  "setitem row i v =
     (let n = int (length row); j = (if i < 0 then i + n else i)
      in if 0 \<le> j \<and> j < n then Inr (row[nat j := v]) else Inl IndexError)"

definition one_hot_output :: "array2 \<Rightarrow> int \<Rightarrow> py_error + array2" where
  "one_hot_output model_output target_class =
     (case setitem (replicate (dim1 model_output) (Fin 0)) target_class (Fin 1) of
        Inl e \<Rightarrow> Inl e
      | Inr row \<Rightarrow> Inr [row])"

text \<open>
  Lines 123 to 139: the reads of \<open>self.extractor.gradients\<close> and of \<open>conv_output\<close> (\<open>.data\<close> of
  \<open>None\<close> is an AttributeError), their first batch elements, and the numpy steps.
\<close>

definition read_out ::
  "platform \<Rightarrow> CamExtractor \<Rightarrow> tensor4 option \<Rightarrow> bool \<Rightarrow> nat \<Rightarrow> nat \<Rightarrow> py_error + array2" where
  "read_out env ex conv_output counterfactual shape2 shape3 =
     (case gradients ex of
        None \<Rightarrow> Inl AttributeError
      | Some g \<Rightarrow>
          (case index0 g of
             Inl e \<Rightarrow> Inl e
           | Inr guided_gradients \<Rightarrow>
               (case conv_output of
                  None \<Rightarrow> Inl AttributeError
                | Some c \<Rightarrow>
                    (case index0 c of
                       Inl e \<Rightarrow> Inl e
                     | Inr target \<Rightarrow>
                         cam_of_arrays env counterfactual guided_gradients target
                           shape2 shape3))))"

text \<open>
  Lines 103 to 121: the label, the moves to the device, the forward pass, the seed and
  the backward pass. The result is \<open>conv_output\<close>, the gradient with which the hook fired
  during the backward pass (\<open>None\<close> when there was no hook), and the input image as moved.
  Line 119 zeroes the gradient buffers of the parameters of the head; the backward pass
  fills the buffers of the parameters again. No line of the file reads them, and they
  are not part of the state modelled here.
\<close>

definition forward_backward ::
  "platform \<Rightarrow> GradCam \<Rightarrow> tensor4 \<Rightarrow> int \<Rightarrow>
   py_error + (tensor4 option \<times> tensor4 option \<times> tensor4)" where
  "forward_backward env self input_image target_class =
     (case torch_tensor [target_class] of
        Inl e \<Rightarrow> Inl e
      | Inr label0 \<Rightarrow>
     (case to_device env (device self) input_image of
        Inl e \<Rightarrow> Inl e
      | Inr input1 \<Rightarrow>
     (case to_device env (device self) label0 of
        Inl e \<Rightarrow> Inl e
      | Inr label \<Rightarrow>
     (case forward_pass (extractor self) input1 label of
        Inl e \<Rightarrow> Inl e
      | Inr (conv_output, model_output, graph) \<Rightarrow>
     (case one_hot_output model_output target_class of
        Inl e \<Rightarrow> Inl e
      | Inr seed0 \<Rightarrow>
     (case to_device env (device self) seed0 of
        Inl e \<Rightarrow> Inl e
      | Inr seed \<Rightarrow>
     (case backward graph model_output seed of
        Inl e \<Rightarrow> Inl e
      | Inr fired \<Rightarrow> Inr (conv_output, fired, input1))))))))"

text \<open>
  Lines 98 to 146. The result is the returned array or the exception, together with
  the object as the call leaves it: the hook, when it fires, stores the gradient in the
  extractor (\<open>save_gradient\<close>), and line 123 reads it from there.
\<close>

definition generate_cam ::
  "platform \<Rightarrow> GradCam \<Rightarrow> tensor4 \<Rightarrow> int \<Rightarrow> bool \<Rightarrow> (py_error + array2) \<times> GradCam" where
  "generate_cam env self input_image target_class counterfactual =
     (case forward_backward env self input_image target_class of
        Inl e \<Rightarrow> (Inl e, self)
      | Inr (conv_output, fired, input1) \<Rightarrow>
          (let self1 = (case fired of
                          None \<Rightarrow> self
                        | Some g \<Rightarrow> self\<lparr> extractor := save_gradient (extractor self) g \<rparr>)
           in (read_out env (extractor self1) conv_output counterfactual
                 (dim2 input1) (dim3 input1), self1)))"

section \<open>A small network on which the definitions are evaluated\<close>

text \<open>
  A platform whose cast of an unrepresentable value is the byte \<open>b\<close> and whose resize
  takes the nearest pixel; no device.
\<close>

definition toy_env :: "8 word \<Rightarrow> platform" where
  "toy_env b =
     \<lparr> cast_invalid = (\<lambda>_. b),
       antialias = (\<lambda>px (w, h) x y. px ! (y * length px div h) ! (x * dim1 px div w)),
       device_ok = (\<lambda>_. False) \<rparr>"

text \<open>
  Three modules: the identity, the multiplication by 2, and a head of two classes whose
  scores are the sum of the features and its negation.
\<close>

definition identity_layer :: nn_module where
  "identity_layer =
     \<lparr> training = True, call_features = Inr, vjp_features = (\<lambda>x g. g),
       call_head = (\<lambda>x t. Inr x), vjp_head = (\<lambda>x t g. g) \<rparr>"

definition doubling_layer :: nn_module where
  "doubling_layer =
     \<lparr> training = True,
       call_features = (\<lambda>x. Inr (map (map3d (fmul (Fin 2))) x)),
       vjp_features = (\<lambda>x g. map (map3d (fmul (Fin 2))) g),
       call_head = (\<lambda>x t. Inr (map2d (fmul (Fin 2)) x)),
       vjp_head = (\<lambda>x t g. map2d (fmul (Fin 2)) g) \<rparr>"

definition sum_head :: nn_module where
  "sum_head =
     \<lparr> training = True,
       call_features = (\<lambda>x. Inl RuntimeError),
       vjp_features = (\<lambda>x g. x),
       call_head = (\<lambda>x t. Inr (map (\<lambda>row. [fsum row, fneg (fsum row)]) x)),
       vjp_head = (\<lambda>x t g. map2 (\<lambda>row grow. map (\<lambda>_. fsub (grow ! 0) (grow ! 1)) row) x g) \<rparr>"

definition toy_model :: nn_model where
  "toy_model = [identity_layer, doubling_layer, sum_head]"

text \<open>The object that \<open>GradCam(toy_model, target_layer=t)\<close> builds.\<close>

definition toy_gradcam :: "int \<Rightarrow> GradCam" where
  "toy_gradcam t =
     \<lparr> gradcam_model = [eval_mode identity_layer, eval_mode doubling_layer],
       separate_head = eval_mode sum_head,
       extractor =
         \<lparr> model = [eval_mode identity_layer, eval_mode doubling_layer],
           target_layer = t, head = eval_mode sum_head,
           feed_target = False, gradients = None \<rparr>,
       device = None \<rparr>"

text \<open>An input of shape \<open>(1, 2, 2, 3)\<close>: one image of two channels, height 2 and width 3.\<close>

definition toy_image :: tensor4 where
  "toy_image =
     [[[[Fin 1, Fin 2, Fin 3], [Fin 4, Fin 5, Fin 6]],
       [[Fin 0, Fin 1, Fin 0], [Fin 1, Fin 0, Fin 1]]]]"

text \<open>A returned value that lies in the closed interval from 0 to 1.\<close>

definition in_unit :: "npfloat \<Rightarrow> bool" where
  "in_unit v = (case v of Fin r \<Rightarrow> 0 \<le> r \<and> r \<le> 1 | _ \<Rightarrow> False)"

text \<open>The 2-D array of \<open>h\<close> rows and \<open>w\<close> columns whose entry in row \<open>y\<close>, column \<open>x\<close> is \<open>f y x\<close>.\<close>

definition table :: "nat \<Rightarrow> nat \<Rightarrow> (nat \<Rightarrow> nat \<Rightarrow> 'a) \<Rightarrow> 'a list list" where
  "table h w f = map (\<lambda>y. map (\<lambda>x. f y x) [0..<w]) [0..<h]"

section \<open>The channel weights\<close>

lemma foldl_fadd_Fin: "foldl fadd (Fin a) (map Fin xs) = Fin (a + sum_list xs)"
  by (induction xs arbitrary: a) (simp_all add: add.assoc)

lemma fsum_Fin: "fsum (map Fin xs) = Fin (sum_list xs)"
  by (simp add: fsum_def foldl_fadd_Fin)

lemma concat_map2d: "concat (map2d f ch) = map f (concat ch)"
  by (simp add: map2d_def map_concat)

lemma length_concat_rect2: "rect2 h w ch \<Longrightarrow> length (concat ch) = h * w"
  unfolding rect2_def
proof (induction ch arbitrary: h)
  case Nil
  then show ?case by simp
next
  case (Cons r ch)
  then obtain h' where "h = Suc h'" by (cases h) auto
  with Cons show ?case by auto
qed

lemma fdiv_Fin_pos: "0 < n \<Longrightarrow> fdiv (Fin s) (Fin (real n)) = Fin (s / real n)"
  by simp

lemma np_mean_hw_Fin:
  assumes "list_all (rect2 h w) g" "0 < h" "0 < w"
  shows "np_mean_hw (map3d Fin g) = map (\<lambda>ch. Fin (sum_list (concat ch) / (real h * real w))) g"
proof -
  have "fdiv (fsum (concat (map2d Fin ch))) (Fin (real (length (concat (map2d Fin ch))))) =
        Fin (sum_list (concat ch) / (real h * real w))" if "ch \<in> set g" for ch
  proof -
    have "rect2 h w ch" using assms(1) that by (simp add: list_all_iff)
    then have len: "length (concat ch) = h * w" by (rule length_concat_rect2)
    have pos: "0 < h * w" using assms(2,3) by simp
    show ?thesis
      using fdiv_Fin_pos [OF pos, of "sum_list (concat ch)"]
      by (simp add: concat_map2d fsum_Fin len)
  qed
  then show ?thesis by (simp add: np_mean_hw_def map3d_def)
qed

lemma map3d_fneg_Fin: "map3d fneg (map3d Fin g) = map3d Fin (map3d uminus g)"
  by (simp add: map3d_def map2d_def)

text \<open>
  C5. The weight of a channel is the spatial mean of the gradient of that channel: for
  a gradient array of shape \<open>(c, h, w)\<close> with finite entries, the sum of the \<open>h * w\<close>
  entries of the channel divided by \<open>h * w\<close>, taken of the negated entries when
  \<open>counterfactual\<close> is set. For the array of shape \<open>(2, 4, 4)\<close> whose channel 0 is filled
  with 2.0 and whose channel 1 is filled with -1.0 the weights are exactly
  \<open>[2.0, -1.0]\<close>.
\<close>

theorem cam_weights_spatial_mean:
  assumes "rect3 c h w g" and "0 < h" and "0 < w"
  shows "cam_weights False (map3d Fin g) =
           map (\<lambda>ch. Fin (sum_list (concat ch) / (real h * real w))) g
       \<and> cam_weights True (map3d Fin g) =
           map (\<lambda>ch. Fin (sum_list (concat (map2d uminus ch)) / (real h * real w))) g
       \<and> cam_weights False
           [replicate 4 (replicate 4 (Fin 2)), replicate 4 (replicate 4 (Fin (- 1)))] =
           [Fin 2, Fin (- 1)]"
proof -
  have g: "list_all (rect2 h w) g" using assms(1) by (simp add: rect3_def)
  have ng: "list_all (rect2 h w) (map3d uminus g)"
    using g by (simp add: list_all_iff map3d_def map2d_def rect2_def)
  have a: "cam_weights False (map3d Fin g) =
           map (\<lambda>ch. Fin (sum_list (concat ch) / (real h * real w))) g"
    by (simp add: cam_weights_def guided_def np_mean_hw_Fin [OF g assms(2,3)])
  have b: "cam_weights True (map3d Fin g) =
           map (\<lambda>ch. Fin (sum_list (concat (map2d uminus ch)) / (real h * real w))) g"
    by (simp add: cam_weights_def guided_def map3d_fneg_Fin np_mean_hw_Fin [OF ng assms(2,3)])
       (simp add: map3d_def)
  have c: "cam_weights False
           [replicate 4 (replicate 4 (Fin 2)), replicate 4 (replicate 4 (Fin (- 1)))] =
           [Fin 2, Fin (- 1)]"
    by code_simp
  show ?thesis using a b c by blast
qed

theorem cam_weights_spatial_mean_witness:
  "rect3 2 4 4 [replicate 4 (replicate 4 (2::real)), replicate 4 (replicate 4 (- 1))]
   \<and> cam_weights False
       (map3d Fin [replicate 4 (replicate 4 2), replicate 4 (replicate 4 (- 1))]) =
       [Fin 2, Fin (- 1)]
   \<and> cam_weights True
       (map3d Fin [replicate 4 (replicate 4 2), replicate 4 (replicate 4 (- 1))]) =
       [Fin (- 2), Fin 1]"
proof -
  have r: "rect3 2 4 4 [replicate 4 (replicate 4 (2::real)), replicate 4 (replicate 4 (- 1))]"
    by (simp add: rect3_def rect2_def list_all_iff)
  show ?thesis
    using r cam_weights_spatial_mean [OF r]
    by (simp add: map2d_def numeral_eq_Suc)
qed

section \<open>The accumulator\<close>

lemma map_as_upt: "length r = w \<Longrightarrow> map g r = map (\<lambda>x. g (r ! x)) [0..<w]"
proof -
  assume "length r = w"
  have "map g (map (\<lambda>i. r ! i) [0..<length r]) = map g r" by (simp only: map_nth)
  then show ?thesis using \<open>length r = w\<close> by (simp add: comp_def)
qed

lemma map2d_table_nth:
  assumes "rect2 h w m"
  shows "map2d g m = table h w (\<lambda>y x. g (m ! y ! x))"
proof -
  have len: "length m = h" and rows: "\<And>r. r \<in> set m \<Longrightarrow> length r = w"
    using assms by (simp_all add: rect2_def list_all_iff)
  have "map (map g) m = map (\<lambda>y. map g (m ! y)) [0..<h]"
    using map_as_upt [OF len, of "map g"] .
  also have "\<dots> = map (\<lambda>y. map (\<lambda>x. g (m ! y ! x)) [0..<w]) [0..<h]"
  proof (rule map_cong [OF refl])
    fix y assume "y \<in> set [0..<h]"
    then have "m ! y \<in> set m" using len by simp
    then show "map g (m ! y) = map (\<lambda>x. g (m ! y ! x)) [0..<w]"
      by (intro map_as_upt rows)
  qed
  finally show ?thesis by (simp add: map2d_def table_def)
qed

lemma map2d_table: "map2d g (table h w f) = table h w (\<lambda>y x. g (f y x))"
  by (simp add: map2d_def table_def comp_def)

lemma iadd2_table:
  "iadd2 (table h w f) (table h w g) = table h w (\<lambda>y x. fadd (f y x) (g y x))"
  by (simp add: iadd2_def table_def map2_map_map)

lemma rect3_nth: "rect3 c h w a \<Longrightarrow> k < c \<Longrightarrow> rect2 h w (a ! k)"
  by (simp add: rect3_def list_all_length)

lemma cam_loop_table:
  assumes "rect3 c h w a"
  shows "k + length ws \<le> c \<Longrightarrow>
         cam_loop (enumerate k (map Fin ws)) (map3d Fin a) (table h w (\<lambda>y x. Fin (f y x))) =
         Inr (table h w (\<lambda>y x. Fin (f y x + (\<Sum>i<length ws. ws ! i * a ! (k + i) ! y ! x))))"
proof (induction ws arbitrary: k f)
  case Nil
  then show ?case by simp
next
  case (Cons v ws)
  have k: "k < c" using Cons.prems by simp
  have lenA: "length a = c" using assms by (simp add: rect3_def)
  have ch: "map3d Fin a ! k = map2d Fin (a ! k)"
    using k lenA by (simp add: map3d_def)
  have sc: "scale2 (Fin v) (map2d Fin (a ! k)) = table h w (\<lambda>y x. Fin (v * a ! k ! y ! x))"
    using map2d_table_nth [OF rect3_nth [OF assms k], of "\<lambda>u. Fin (v * u)"]
    by (simp add: scale2_def map2d_def comp_def)
  have step: "iadd2 (table h w (\<lambda>y x. Fin (f y x))) (scale2 (Fin v) (map3d Fin a ! k)) =
              table h w (\<lambda>y x. Fin (f y x + v * a ! k ! y ! x))"
    by (simp add: ch sc iadd2_table)
  have IH: "cam_loop (enumerate (Suc k) (map Fin ws)) (map3d Fin a)
              (table h w (\<lambda>y x. Fin (f y x + v * a ! k ! y ! x))) =
            Inr (table h w (\<lambda>y x. Fin (f y x + v * a ! k ! y ! x +
                   (\<Sum>i<length ws. ws ! i * a ! (Suc k + i) ! y ! x))))"
    using Cons.IH [of "Suc k" "\<lambda>y x. f y x + v * a ! k ! y ! x"] Cons.prems by simp
  have sums: "f y x + v * a ! k ! y ! x + (\<Sum>i<length ws. ws ! i * a ! (Suc k + i) ! y ! x) =
              f y x + (\<Sum>i<length (v # ws). (v # ws) ! i * a ! (k + i) ! y ! x)" for y x
    by (simp del: sum.lessThan_Suc add: sum.lessThan_Suc_shift)
  have inA: "k < length (map3d Fin a)" using k lenA by (simp add: map3d_def)
  show ?case
    using inA by (simp only: list.map enumerate_simps cam_loop.simps if_True step IH sums)
qed

lemma np_ones_table:
  assumes "rect3 c h w a" "0 < c"
  shows "np_ones (map3d Fin a) = table h w (\<lambda>y x. Fin 1)"
proof -
  obtain ch rest where a: "a = ch # rest" using assms by (cases a) (auto simp: rect3_def)
  have "rect2 h w ch" using assms(1) a by (simp add: rect3_def)
  from map2d_table_nth [OF this, of "\<lambda>_. Fin 1"]
  show ?thesis by (simp add: np_ones_def a map3d_def map2d_def comp_def)
qed

lemma fmaximum_Fin_0: "fmaximum (Fin v) (Fin 0) = Fin (max 0 v)"
  by (simp add: fmaximum_def max_def)

text \<open>
  C6. For an activation of shape \<open>(c, h, w)\<close> and \<open>c\<close> weights, all finite, the accumulator
  before the normalization is, entry by entry, \<open>max(0, 1 + sum over the channels of
  weight[channel] * activation[channel])\<close>: it starts from 1.0 everywhere, the loop adds
  each weighted channel, and \<open>np.maximum(cam, 0)\<close> clamps the sum.
\<close>

theorem accumulate_formula:
  assumes "rect3 c h w a" and "length ws = c" and "0 < c"
  shows "accumulate (map Fin ws) (map3d Fin a) =
           Inr (table h w (\<lambda>y x. Fin (max 0 (1 + (\<Sum>i<c. ws ! i * a ! i ! y ! x)))))"
proof -
  have loop: "cam_loop (enumerate 0 (map Fin ws)) (map3d Fin a) (np_ones (map3d Fin a)) =
              Inr (table h w (\<lambda>y x. Fin (1 + (\<Sum>i<c. ws ! i * a ! i ! y ! x))))"
    using cam_loop_table [OF assms(1), of 0 ws "\<lambda>y x. 1"] assms(2)
    by (simp add: np_ones_table [OF assms(1,3)])
  show ?thesis
    by (simp add: accumulate_def loop rectify_def map2d_table fmaximum_Fin_0)
qed

theorem accumulate_formula_witness:
  "rect3 2 3 3 (replicate 2 (replicate 3 (replicate 3 (1::real)))) \<and>
   accumulate (map Fin [1, 0]) (map3d Fin (replicate 2 (replicate 3 (replicate 3 1)))) =
     Inr (replicate 3 (replicate 3 (Fin 2)))"
proof -
  have r: "rect3 2 3 3 (replicate 2 (replicate 3 (replicate 3 (1::real))))"
    by (simp add: rect3_def rect2_def list_all_iff)
  have l: "length [1, 0 :: real] = 2" by simp
  show ?thesis
    using r accumulate_formula [OF r l]
    by (simp add: table_def numeral_eq_Suc lessThan_Suc)
qed

section \<open>The returned array\<close>

lemma to_device_Inr: "to_device env dev x = Inr y \<Longrightarrow> y = x"
  by (auto simp: to_device_def split: option.splits if_splits)

lemma forward_backward_input:
  "forward_backward env self x tc = Inr (conv_output, fired, input1) \<Longrightarrow> input1 = x"
  unfolding forward_backward_def
  by (auto split: sum.splits prod.splits dest: to_device_Inr)

lemma generate_cam_Inr:
  assumes "fst (generate_cam env self x tc cf) = Inr cam"
  shows "\<exists>ex conv_output. read_out env ex conv_output cf (dim2 x) (dim3 x) = Inr cam"
proof (cases "forward_backward env self x tc")
  case (Inl e)
  with assms show ?thesis by (simp add: generate_cam_def)
next
  case (Inr r)
  obtain conv_output fired input1 where r: "r = (conv_output, fired, input1)"
    by (cases r) auto
  have "input1 = x" using Inr r forward_backward_input by blast
  with assms Inr r show ?thesis
    by (auto simp: generate_cam_def Let_def)
qed

lemma read_out_Inr:
  "read_out env ex conv_output cf s2 s3 = Inr cam \<Longrightarrow>
   \<exists>g t. cam_of_arrays env cf g t s2 s3 = Inr cam"
  unfolding read_out_def
  by (auto split: option.splits sum.splits)

lemma cam_of_arrays_Inr:
  "cam_of_arrays env cf g t s2 s3 = Inr cam \<Longrightarrow>
   \<exists>img0 img. resize env img0 (s2, s3) = Inr img \<and> cam = asarray_div255 img"
  unfolding cam_of_arrays_def
  by (auto split: sum.splits)

lemma resize_shape:
  "resize env img0 (w, h) = Inr img \<Longrightarrow> rect2 h w (pixels img)"
  by (auto simp: resize_def rect2_def list_all_iff split: if_splits)

lemma asarray_div255_shape: "rect2 h w (pixels img) \<Longrightarrow> rect2 h w (asarray_div255 img)"
  by (simp add: asarray_div255_def map2d_def rect2_def list_all_iff)

lemma byte_in_unit: "in_unit (Fin (real (unat (b :: 8 word)) / 255))"
proof -
  have "unat b < 2 ^ LENGTH(8)" by (rule unsigned_less)
  then have le: "unat b \<le> 255" by simp
  have "real (unat b) \<le> real 255" using le by (simp only: of_nat_le_iff)
  then have c: "real (unat b) \<le> 255" by (simp del: of_nat_unat)
  have a: "0 \<le> real (unat b)" by (rule of_nat_0_le_iff)
  show ?thesis using a c by (simp del: of_nat_unat add: in_unit_def)
qed

lemma asarray_div255_unit: "list_all (list_all in_unit) (asarray_div255 img)"
  by (simp del: of_nat_unat add: asarray_div255_def map2d_def list_all_iff byte_in_unit)

text \<open>
  C4. Every value of an array that \<open>generate_cam\<close> returns lies in the closed interval
  from 0 to 1, for every class, image, object and platform: the last step divides bytes
  by 255.
\<close>

theorem generate_cam_unit_interval:
  assumes "fst (generate_cam env self input_image target_class counterfactual) = Inr cam"
  shows "list_all (list_all in_unit) cam"
proof -
  from generate_cam_Inr [OF assms] obtain ex conv_output where
    "read_out env ex conv_output counterfactual (dim2 input_image) (dim3 input_image) = Inr cam"
    by blast
  from read_out_Inr [OF this] obtain g t where
    "cam_of_arrays env counterfactual g t (dim2 input_image) (dim3 input_image) = Inr cam"
    by blast
  from cam_of_arrays_Inr [OF this] obtain img where "cam = asarray_div255 img" by blast
  then show ?thesis by (simp add: asarray_div255_unit)
qed

theorem generate_cam_unit_interval_witness:
  "fst (generate_cam (toy_env 0) (toy_gradcam 1) toy_image 0 False) =
     Inr [[Fin 0, Fin (1 / 3)], [Fin 0, Fin (1 / 3)], [Fin (2 / 3), Fin (2 / 3)]]
   \<and> list_all (list_all in_unit)
       [[Fin 0, Fin (1 / 3)], [Fin 0, Fin (1 / 3)], [Fin (2 / 3), Fin (2 / 3)]]"
proof -
  have run: "fst (generate_cam (toy_env 0) (toy_gradcam 1) toy_image 0 False) =
     Inr [[Fin 0, Fin (1 / 3)], [Fin 0, Fin (1 / 3)], [Fin (2 / 3), Fin (2 / 3)]]"
    by code_simp
  show ?thesis using run generate_cam_unit_interval [OF run] by simp
qed

text \<open>
  C1. The array that \<open>generate_cam\<close> returns has \<open>input_image.shape[3]\<close> rows and
  \<open>input_image.shape[2]\<close> columns: for an input of height H and width W its shape is
  \<open>(W, H)\<close>, not \<open>(H, W)\<close>. Line 138 passes \<open>(shape[2], shape[3])\<close>, that is
  \<open>(H, W)\<close>, to \<open>Image.resize\<close>, which reads its argument as \<open>(width, height)\<close>, and the
  array of an image has shape \<open>(height, width)\<close>. For the input of height 2 and width 3
  the result has 3 rows of 2 entries.
\<close>

theorem generate_cam_shape_transposed:
  assumes "fst (generate_cam env self input_image target_class counterfactual) = Inr cam"
  shows "rect2 (dim3 input_image) (dim2 input_image) cam"
proof -
  from generate_cam_Inr [OF assms] obtain ex conv_output where
    "read_out env ex conv_output counterfactual (dim2 input_image) (dim3 input_image) = Inr cam"
    by blast
  from read_out_Inr [OF this] obtain g t where
    "cam_of_arrays env counterfactual g t (dim2 input_image) (dim3 input_image) = Inr cam"
    by blast
  from cam_of_arrays_Inr [OF this] obtain img0 img where
    "resize env img0 (dim2 input_image, dim3 input_image) = Inr img" and "cam = asarray_div255 img"
    by blast
  then show ?thesis by (simp add: resize_shape asarray_div255_shape)
qed

theorem generate_cam_shape_transposed_witness:
  "dim2 toy_image = 2 \<and> dim3 toy_image = 3
   \<and> fst (generate_cam (toy_env 0) (toy_gradcam 0) toy_image 0 False) =
       Inr [[Fin 0, Fin (1 / 3)], [Fin 0, Fin (1 / 3)], [Fin (2 / 3), Fin (2 / 3)]]
   \<and> rect2 3 2 [[Fin 0, Fin (1 / 3)], [Fin 0, Fin (1 / 3)], [Fin (2 / 3), Fin (2 / 3)]]
   \<and> \<not> rect2 2 3 [[Fin 0, Fin (1 / 3)], [Fin 0, Fin (1 / 3)], [Fin (2 / 3), Fin (2 / 3)]]"
proof -
  have d: "dim2 toy_image = 2 \<and> dim3 toy_image = 3"
    by (simp add: toy_image_def dim2_def dim3_def dim1_def)
  have run: "fst (generate_cam (toy_env 0) (toy_gradcam 0) toy_image 0 False) =
       Inr [[Fin 0, Fin (1 / 3)], [Fin 0, Fin (1 / 3)], [Fin (2 / 3), Fin (2 / 3)]]"
    by code_simp
  have n: "\<not> rect2 2 3 [[Fin 0, Fin (1 / 3)], [Fin 0, Fin (1 / 3)], [Fin (2 / 3), Fin (2 / 3)]]"
    by (simp add: rect2_def)
  show ?thesis using d run n generate_cam_shape_transposed [OF run] by simp
qed

section \<open>The normalization of a constant accumulator\<close>

lemma fle_fminimum: "fle (Fin m) (fminimum a b) \<Longrightarrow> fle (Fin m) a \<and> fle (Fin m) b"
  by (cases a; cases b) (simp_all add: fminimum_def split: if_splits)

lemma fle_fmaximum: "fle (fmaximum a b) (Fin m) \<Longrightarrow> fle a (Fin m) \<and> fle b (Fin m)"
  by (cases a; cases b) (simp_all add: fmaximum_def split: if_splits)

lemma foldl_fminimum_lower:
  "fle (Fin m) (foldl fminimum a xs) \<Longrightarrow> fle (Fin m) a \<and> list_all (fle (Fin m)) xs"
proof (induction xs arbitrary: a)
  case Nil
  then show ?case by simp
next
  case (Cons x xs)
  then have "fle (Fin m) (fminimum a x) \<and> list_all (fle (Fin m)) xs" by simp
  then show ?case using fle_fminimum [of m a x] by simp
qed

lemma foldl_fmaximum_upper:
  "fle (foldl fmaximum a xs) (Fin m) \<Longrightarrow> fle a (Fin m) \<and> list_all (\<lambda>v. fle v (Fin m)) xs"
proof (induction xs arbitrary: a)
  case Nil
  then show ?case by simp
next
  case (Cons x xs)
  then have "fle (fmaximum a x) (Fin m) \<and> list_all (\<lambda>v. fle v (Fin m)) xs" by simp
  then show ?case using fle_fmaximum [of a x m] by simp
qed

lemma fle_antisym: "fle (Fin m) v \<Longrightarrow> fle v (Fin m) \<Longrightarrow> v = Fin m"
  by (cases v) simp_all

lemma degenerate_entries:
  assumes "np_min cam = Inr (Fin m)" and "np_max cam = Inr (Fin m)"
  shows "list_all (\<lambda>v. v = Fin m) (concat cam)"
proof (cases "concat cam")
  case Nil
  show ?thesis unfolding Nil by simp
next
  case (Cons v vs)
  have lo: "foldl fminimum v vs = Fin m" using assms(1) Cons by (simp add: np_min_def)
  have hi: "foldl fmaximum v vs = Fin m" using assms(2) Cons by (simp add: np_max_def)
  have l: "fle (Fin m) v \<and> list_all (fle (Fin m)) vs"
    by (rule foldl_fminimum_lower) (simp add: lo)
  have u: "fle v (Fin m) \<and> list_all (\<lambda>u. fle u (Fin m)) vs"
    by (rule foldl_fmaximum_upper) (simp add: hi)
  have "x = Fin m" if "x \<in> set (v # vs)" for x
  proof -
    have "fle (Fin m) x" and "fle x (Fin m)"
      using l u that by (auto simp: list_all_iff)
    then show ?thesis by (rule fle_antisym)
  qed
  then show ?thesis unfolding Cons list_all_iff by blast
qed

lemma normalize_degenerate:
  assumes "np_min cam = Inr (Fin m)" and "np_max cam = Inr (Fin m)"
  shows "normalize cam = Inr (map2d (\<lambda>_. NaN) cam)"
proof -
  have all: "v = Fin m" if "r \<in> set cam" and "v \<in> set r" for r v
    using degenerate_entries [OF assms] that by (auto simp: list_all_iff)
  have "map (\<lambda>v. fdiv (fsub v (Fin m)) (fsub (Fin m) (Fin m))) r = map (\<lambda>_. NaN) r"
    if "r \<in> set cam" for r
  proof (rule map_cong [OF refl])
    fix v assume "v \<in> set r"
    then have "v = Fin m" using that all by blast
    then show "fdiv (fsub v (Fin m)) (fsub (Fin m) (Fin m)) = NaN" by (simp add: fsub_def)
  qed
  then have "map2d (\<lambda>v. fdiv (fsub v (Fin m)) (fsub (Fin m) (Fin m))) cam = map2d (\<lambda>_. NaN) cam"
    by (simp add: map2d_def)
  then show ?thesis using assms by (simp add: normalize_def)
qed

lemma quantize_NaN: "quantize env (map2d (\<lambda>_. NaN) cam) = map2d (\<lambda>_. cast_invalid env NaN) cam"
  by (simp add: quantize_def map2d_def np_uint8_def)

text \<open>
  C2. The degenerate accumulator is not given a defined result. For the activation of
  shape \<open>(2, 3, 3)\<close> filled with 1.0 and the weights \<open>[1.0, 0.0]\<close> the rectified
  accumulator is 2.0 everywhere, and line 136 divides \<open>0\<close> by \<open>0\<close>: the normalized map is
  NaN at every position and nothing is raised. The NaN goes into the cast of line 137,
  whose result numpy leaves to the platform, so the returned map depends on the
  platform: on the small network, for class 1 (rectified accumulator 0 everywhere), it
  is 0 everywhere where the cast of NaN gives the byte 0 and 1 everywhere where it
  gives the byte 255.
\<close>

theorem generate_cam_degenerate:
  "accumulate [Fin 1, Fin 0] (replicate 2 (replicate 3 (replicate 3 (Fin 1)))) =
     Inr (replicate 3 (replicate 3 (Fin 2)))
   \<and> normalize (replicate 3 (replicate 3 (Fin 2))) = Inr (replicate 3 (replicate 3 NaN))
   \<and> fst (generate_cam (toy_env 0) (toy_gradcam 1) toy_image 1 False) =
       Inr (replicate 3 (replicate 2 (Fin 0)))
   \<and> fst (generate_cam (toy_env 255) (toy_gradcam 1) toy_image 1 False) =
       Inr (replicate 3 (replicate 2 (Fin 1)))"
proof -
  have a: "accumulate [Fin 1, Fin 0] (replicate 2 (replicate 3 (replicate 3 (Fin 1)))) =
     Inr (replicate 3 (replicate 3 (Fin 2)))"
    by code_simp
  have b: "normalize (replicate 3 (replicate 3 (Fin 2))) = Inr (replicate 3 (replicate 3 NaN))"
    by code_simp
  have c: "fst (generate_cam (toy_env 0) (toy_gradcam 1) toy_image 1 False) =
       Inr (replicate 3 (replicate 2 (Fin 0)))"
    by code_simp
  have d: "fst (generate_cam (toy_env 255) (toy_gradcam 1) toy_image 1 False) =
       Inr (replicate 3 (replicate 2 (Fin 1)))"
    by code_simp
  show ?thesis using a b c d by blast
qed

section \<open>A target layer index that matches no position\<close>

lemma convolutions_loop_no_match:
  assumes "list_all (\<lambda>p. int (fst p) \<noteq> t) ps"
      and "convolutions_loop t ps x None None = Inr (conv_output, y, ops)"
  shows "conv_output = None \<and> ops = None"
  using assms
proof (induction ps arbitrary: x)
  case Nil
  then show ?case by simp
next
  case (Cons p ps)
  obtain module_pos m where p: "p = (module_pos, m)" by (cases p)
  show ?case
  proof (cases "call_features m x")
    case (Inl e)
    with Cons.prems p show ?thesis by simp
  next
    case (Inr z)
    with Cons.prems p have "convolutions_loop t ps z None None = Inr (conv_output, y, ops)"
      by simp
    moreover have "list_all (\<lambda>p. int (fst p) \<noteq> t) ps" using Cons.prems by simp
    ultimately show ?thesis using Cons.IH by blast
  qed
qed

lemma enumerate_positions:
  assumes "t < 0 \<or> int (length ms) \<le> t"
  shows "list_all (\<lambda>p. int (fst p) \<noteq> t) (enumerate 0 ms)"
  using assms by (auto simp: list_all_iff in_set_enumerate_eq)

lemma forward_pass_on_convolutions_no_match:
  assumes "target_layer ex < 0 \<or> int (length (model ex)) \<le> target_layer ex"
      and "forward_pass_on_convolutions ex x = Inr (conv_output, y, ops)"
  shows "conv_output = None \<and> ops = None"
  using convolutions_loop_no_match [OF enumerate_positions [OF assms(1)]] assms(2)
  by (simp add: forward_pass_on_convolutions_def)

lemma forward_pass_no_match:
  assumes "target_layer ex < 0 \<or> int (length (model ex)) \<le> target_layer ex"
      and "forward_pass ex x label = Inr (conv_output, model_output, graph)"
  shows "conv_output = None \<and> hook_ops graph = None"
proof (cases "forward_pass_on_convolutions ex x")
  case (Inl e)
  with assms(2) show ?thesis by (simp add: forward_pass_def)
next
  case (Inr r)
  obtain c y ops where r: "r = (c, y, ops)" by (cases r) auto
  have none: "c = None \<and> ops = None"
    using forward_pass_on_convolutions_no_match [OF assms(1)] Inr r by blast
  show ?thesis
    using assms(2) Inr r none
    by (auto simp: forward_pass_def Let_def split: sum.splits)
qed

lemma backward_no_hook:
  "hook_ops graph = None \<Longrightarrow> backward graph model_output seed = Inr fired \<Longrightarrow> fired = None"
  by (auto simp: backward_def Let_def split: if_splits)

lemma forward_backward_no_match:
  assumes "target_layer (extractor self) < 0
           \<or> int (length (model (extractor self))) \<le> target_layer (extractor self)"
      and "forward_backward env self x tc = Inr (conv_output, fired, input1)"
  shows "conv_output = None \<and> fired = None"
  using assms(2) unfolding forward_backward_def
  by (auto split: sum.splits dest!: forward_pass_no_match [OF assms(1)])
     (blast dest: backward_no_hook)

text \<open>
  C3. When the target layer index matches no position of the body (it is negative, or
  at least the number of sub-modules of the body), the captured activation stays
  absent and no hook is registered. On an extractor whose \<open>gradients\<close> are still \<open>None\<close>
  (as \<open>__init__\<close> leaves them; only the hook writes them) \<open>generate_cam\<close> then returns no
  array: it ends with the exception of the forward pass, the seed or the backward pass
  if one of them raises, and otherwise at line 123 with the AttributeError of reading
  \<open>.data\<close> of \<open>None\<close>. The code has no error of its own for the missing activation.
\<close>

theorem never_matching_layer:
  assumes "target_layer (extractor self) < 0
           \<or> int (length (model (extractor self))) \<le> target_layer (extractor self)"
      and "gradients (extractor self) = None"
  shows "(case forward_pass_on_convolutions (extractor self) x of
            Inl e \<Rightarrow> True
          | Inr (conv_output, y, ops) \<Rightarrow> conv_output = None \<and> ops = None)
       \<and> (case forward_backward env self input_image target_class of
            Inl e \<Rightarrow>
              generate_cam env self input_image target_class counterfactual = (Inl e, self)
          | Inr (conv_output, fired, input1) \<Rightarrow>
              conv_output = None \<and> fired = None \<and>
              generate_cam env self input_image target_class counterfactual =
                (Inl AttributeError, self))"
proof -
  have a: "case forward_pass_on_convolutions (extractor self) x of
            Inl e \<Rightarrow> True
          | Inr (conv_output, y, ops) \<Rightarrow> conv_output = None \<and> ops = None"
    using forward_pass_on_convolutions_no_match [OF assms(1)]
    by (auto split: sum.splits)
  have b: "case forward_backward env self input_image target_class of
            Inl e \<Rightarrow>
              generate_cam env self input_image target_class counterfactual = (Inl e, self)
          | Inr (conv_output, fired, input1) \<Rightarrow>
              conv_output = None \<and> fired = None \<and>
              generate_cam env self input_image target_class counterfactual =
                (Inl AttributeError, self)"
  proof (cases "forward_backward env self input_image target_class")
    case (Inl e)
    then show ?thesis by (simp add: generate_cam_def)
  next
    case (Inr r)
    obtain c f i where r: "r = (c, f, i)" by (cases r) auto
    have none: "c = None \<and> f = None"
      using forward_backward_no_match [OF assms(1)] Inr r by blast
    show ?thesis
      using Inr r none assms(2) by (simp add: generate_cam_def read_out_def)
  qed
  show ?thesis using a b by blast
qed

theorem never_matching_layer_witness:
  "int (length (model (extractor (toy_gradcam 2)))) \<le> target_layer (extractor (toy_gradcam 2))
   \<and> gradients (extractor (toy_gradcam 2)) = None
   \<and> forward_backward (toy_env 0) (toy_gradcam 2) toy_image 0 = Inr (None, None, toy_image)
   \<and> fst (generate_cam (toy_env 0) (toy_gradcam 2) toy_image 0 False) = Inl AttributeError"
proof -
  have h1: "target_layer (extractor (toy_gradcam 2)) < 0
        \<or> int (length (model (extractor (toy_gradcam 2)))) \<le> target_layer (extractor (toy_gradcam 2))"
    by (simp add: toy_gradcam_def)
  have h2: "gradients (extractor (toy_gradcam 2)) = None"
    by (simp add: toy_gradcam_def)
  have run: "forward_backward (toy_env 0) (toy_gradcam 2) toy_image 0 = Inr (None, None, toy_image)"
    by code_simp
  show ?thesis
    using never_matching_layer [OF h1 h2, of toy_image "toy_env 0" toy_image 0 False] h2 run
    by (simp add: toy_gradcam_def)
qed

text \<open>
  The body of the small network has two sub-modules; with the target layer index 2 the
  call ends with the AttributeError.
\<close>

theorem never_matching_layer_counterexample:
  "fst (generate_cam (toy_env 0) (toy_gradcam 2) toy_image 0 False) = Inl AttributeError"
  by code_simp

section \<open>The target class and the one-hot seed\<close>

lemma to_device_value:
  "to_device env dev a = Inr a' \<Longrightarrow> to_device env dev b = Inr b"
  by (auto simp: to_device_def split: option.splits if_splits)

lemma torch_tensor_int64:
  "- (2 ^ 63) \<le> v \<Longrightarrow> v < 2 ^ 63 \<Longrightarrow> torch_tensor [v] = Inr [v]"
  by (simp add: torch_tensor_def)

lemma one_hot_output_out_of_range:
  assumes "int (dim1 model_output) \<le> target_class \<or> target_class < - int (dim1 model_output)"
  shows "one_hot_output model_output target_class = Inl IndexError"
  using assms by (auto simp: one_hot_output_def setitem_def Let_def)

text \<open>
  C7. When the label fits an int64, the move to the device and the forward pass
  succeed, and the target class is at least the number \<open>n\<close> of classes (the last
  dimension of the head's output) or below \<open>-n\<close>, the assignment of line 114 raises the
  IndexError of the indexing, before any backward pass, and \<open>generate_cam\<close> ends with it,
  leaving the object as it was. A class from \<open>-n\<close> to \<open>-1\<close> is not refused: the index
  counts from the end.
\<close>

theorem class_out_of_range:
  assumes "- (2 ^ 63) \<le> target_class" and "target_class < 2 ^ 63"
      and "to_device env (device self) input_image = Inr input_image"
      and "forward_pass (extractor self) input_image [target_class] =
             Inr (conv_output, model_output, graph)"
      and "int (dim1 model_output) \<le> target_class \<or> target_class < - int (dim1 model_output)"
  shows "generate_cam env self input_image target_class counterfactual = (Inl IndexError, self)"
proof -
  have lab: "to_device env (device self) [target_class] = Inr [target_class]"
    using assms(3) by (rule to_device_value)
  have "forward_backward env self input_image target_class = Inl IndexError"
    by (simp add: forward_backward_def torch_tensor_int64 [OF assms(1,2)] assms(3) lab assms(4)
          one_hot_output_out_of_range [OF assms(5)])
  then show ?thesis by (simp add: generate_cam_def)
qed

theorem class_out_of_range_witness:
  "forward_pass (extractor (toy_gradcam 1)) toy_image [2] =
     Inr (Some [[[[Fin 2, Fin 4, Fin 6], [Fin 8, Fin 10, Fin 12]],
                 [[Fin 0, Fin 2, Fin 0], [Fin 2, Fin 0, Fin 2]]]],
          [[Fin 48, Fin (- 48)]],
          \<lparr> hook_ops = Some [],
            body_output = [[[[Fin 2, Fin 4, Fin 6], [Fin 8, Fin 10, Fin 12]],
                            [[Fin 0, Fin 2, Fin 0], [Fin 2, Fin 0, Fin 2]]]],
            head_module = eval_mode sum_head, head_target = None \<rparr>)
   \<and> int (dim1 [[Fin 48, Fin (- 48)]]) \<le> 2
   \<and> fst (generate_cam (toy_env 0) (toy_gradcam 1) toy_image 2 False) = Inl IndexError"
proof -
  have f: "forward_pass (extractor (toy_gradcam 1)) toy_image [2] =
     Inr (Some [[[[Fin 2, Fin 4, Fin 6], [Fin 8, Fin 10, Fin 12]],
                 [[Fin 0, Fin 2, Fin 0], [Fin 2, Fin 0, Fin 2]]]],
          [[Fin 48, Fin (- 48)]],
          \<lparr> hook_ops = Some [],
            body_output = [[[[Fin 2, Fin 4, Fin 6], [Fin 8, Fin 10, Fin 12]],
                            [[Fin 0, Fin 2, Fin 0], [Fin 2, Fin 0, Fin 2]]]],
            head_module = eval_mode sum_head, head_target = None \<rparr>)"
    by (simp add: forward_pass_def forward_pass_on_convolutions_def toy_gradcam_def
          toy_image_def eval_mode_def identity_layer_def doubling_layer_def sum_head_def
          enumerate_eq_zip upt_rec view_flat_def map3d_def map2d_def fsum_def)
  have d: "to_device (toy_env 0) (device (toy_gradcam 1)) toy_image = Inr toy_image"
    by (simp add: to_device_def toy_gradcam_def)
  have k: "int (dim1 [[Fin 48, Fin (- 48)]]) \<le> 2 \<or> 2 < - int (dim1 [[Fin 48, Fin (- 48)]])"
    by (simp add: dim1_def)
  show ?thesis
    using f class_out_of_range [OF _ _ d f k, of False]
    by (simp add: dim1_def)
qed

text \<open>
  The head of the small network has two classes; the class \<open>-1\<close> is no index of a class,
  and the call returns a map.
\<close>

theorem class_out_of_range_counterexample:
  "fst (generate_cam (toy_env 0) (toy_gradcam 1) toy_image (- 1) True) =
     Inr [[Fin 0, Fin (1 / 3)], [Fin 0, Fin (1 / 3)], [Fin (2 / 3), Fin (2 / 3)]]"
  by code_simp


lemma one_hot_output_negative:
  assumes "- int (dim1 model_output) \<le> target_class" and "target_class < 0"
  shows "one_hot_output model_output target_class =
           Inr [(replicate (dim1 model_output) (Fin 0))
                  [nat (target_class + int (dim1 model_output)) := Fin 1]]"
    and "one_hot_output model_output (target_class + int (dim1 model_output)) =
           one_hot_output model_output target_class"
  using assms by (simp_all add: one_hot_output_def setitem_def Let_def)

lemma forward_pass_unfed:
  "\<not> feed_target ex \<Longrightarrow> forward_pass ex x label = forward_pass ex x label'"
  by (simp add: forward_pass_def)

lemma to_device_eq:
  "to_device env dev a =
     (if (case dev of None \<Rightarrow> True | Some d \<Rightarrow> device_ok env d) then Inr a else Inl RuntimeError)"
  by (simp add: to_device_def split: option.splits)

lemma forward_backward_wrapped:
  assumes "\<not> feed_target (extractor self)"
      and "forward_pass (extractor self) input_image [target_class] =
             Inr (conv_output, model_output, graph)"
      and "one_hot_output model_output target_class' = one_hot_output model_output target_class"
      and "torch_tensor [target_class] = Inr [target_class]"
      and "torch_tensor [target_class'] = Inr [target_class']"
  shows "forward_backward env self input_image target_class' =
         forward_backward env self input_image target_class"
proof -
  have f: "forward_pass (extractor self) input_image label =
             Inr (conv_output, model_output, graph)" for label
    using forward_pass_unfed [OF assms(1)] assms(2) by metis
  show ?thesis
    by (simp add: forward_backward_def assms(3,4,5) to_device_eq f)
qed

text \<open>
  C10. For a negative target class not below \<open>-n\<close>, where \<open>n\<close> is the number of classes
  of the head's output, the assignment of line 114 raises nothing: the seed is the
  one-hot vector of the class \<open>target_class + n\<close> (so \<open>-1\<close> selects the last class), and,
  when the label is not fed to the head, \<open>generate_cam\<close> returns what it returns for the
  class \<open>target_class + n\<close> and leaves the object in the same state. (Below \<open>-n\<close> the
  assignment raises IndexError.)
\<close>

theorem negative_class_wraps:
  assumes "forward_pass (extractor self) input_image [target_class] =
             Inr (conv_output, model_output, graph)"
      and "- int (dim1 model_output) \<le> target_class" and "target_class < 0"
      and "int (dim1 model_output) \<le> 2 ^ 63"
  shows "one_hot_output model_output target_class =
           Inr [(replicate (dim1 model_output) (Fin 0))
                  [nat (target_class + int (dim1 model_output)) := Fin 1]]
       \<and> (\<not> feed_target (extractor self) \<longrightarrow>
            generate_cam env self input_image target_class counterfactual =
            generate_cam env self input_image (target_class + int (dim1 model_output))
              counterfactual)"
proof -
  have t1: "torch_tensor [target_class] = Inr [target_class]"
    using assms(2,3,4) by (intro torch_tensor_int64) simp_all
  have t2: "torch_tensor [target_class + int (dim1 model_output)] =
              Inr [target_class + int (dim1 model_output)]"
    using assms(2,3,4) by (intro torch_tensor_int64) simp_all
  have "forward_backward env self input_image (target_class + int (dim1 model_output)) =
        forward_backward env self input_image target_class"
    if "\<not> feed_target (extractor self)"
    by (rule forward_backward_wrapped
          [OF that assms(1) one_hot_output_negative(2) [OF assms(2,3)] t1 t2])
  then show ?thesis
    using one_hot_output_negative(1) [OF assms(2,3)] by (simp add: generate_cam_def)
qed

theorem negative_class_wraps_witness:
  "forward_pass (extractor (toy_gradcam 1)) toy_image [- 1] =
     Inr (Some [[[[Fin 2, Fin 4, Fin 6], [Fin 8, Fin 10, Fin 12]],
                 [[Fin 0, Fin 2, Fin 0], [Fin 2, Fin 0, Fin 2]]]],
          [[Fin 48, Fin (- 48)]],
          \<lparr> hook_ops = Some [],
            body_output = [[[[Fin 2, Fin 4, Fin 6], [Fin 8, Fin 10, Fin 12]],
                            [[Fin 0, Fin 2, Fin 0], [Fin 2, Fin 0, Fin 2]]]],
            head_module = eval_mode sum_head, head_target = None \<rparr>)
   \<and> one_hot_output [[Fin 48, Fin (- 48)]] (- 1) = Inr [[Fin 0, Fin 1]]
   \<and> \<not> feed_target (extractor (toy_gradcam 1))
   \<and> generate_cam (toy_env 0) (toy_gradcam 1) toy_image (- 1) True =
     generate_cam (toy_env 0) (toy_gradcam 1) toy_image 1 True"
proof -
  have f: "forward_pass (extractor (toy_gradcam 1)) toy_image [- 1] =
     Inr (Some [[[[Fin 2, Fin 4, Fin 6], [Fin 8, Fin 10, Fin 12]],
                 [[Fin 0, Fin 2, Fin 0], [Fin 2, Fin 0, Fin 2]]]],
          [[Fin 48, Fin (- 48)]],
          \<lparr> hook_ops = Some [],
            body_output = [[[[Fin 2, Fin 4, Fin 6], [Fin 8, Fin 10, Fin 12]],
                            [[Fin 0, Fin 2, Fin 0], [Fin 2, Fin 0, Fin 2]]]],
            head_module = eval_mode sum_head, head_target = None \<rparr>)"
    by (simp add: forward_pass_def forward_pass_on_convolutions_def toy_gradcam_def
          toy_image_def eval_mode_def identity_layer_def doubling_layer_def sum_head_def
          enumerate_eq_zip upt_rec view_flat_def map3d_def map2d_def fsum_def)
  have k: "- int (dim1 [[Fin 48, Fin (- 48)]]) \<le> - 1" "int (dim1 [[Fin 48, Fin (- 48)]]) \<le> 2 ^ 63"
    by (simp_all add: dim1_def)
  have nf: "\<not> feed_target (extractor (toy_gradcam 1))" by (simp add: toy_gradcam_def)
  show ?thesis
    using f nf negative_class_wraps [OF f k(1) _ k(2), of "toy_env 0" True]
    by (simp add: dim1_def)
qed

text \<open>With two classes, the class \<open>-3\<close> raises IndexError.\<close>

theorem negative_class_wraps_counterexample:
  "fst (generate_cam (toy_env 0) (toy_gradcam 1) toy_image (- 3) False) = Inl IndexError"
  by code_simp

section \<open>The constructor of GradCam\<close>

lemma GradCam_init_toy: "GradCam_init toy_model t None None None = Inr (toy_gradcam t)"
  by (simp add: GradCam_init_def toy_model_def toy_gradcam_def CamExtractor_init_def)

text \<open>
  C8. Constructed without a separate head, from a model with at least one sub-module,
  \<open>GradCam\<close> takes the last sub-module of the model as the head and the remaining ones,
  in their order, as the body (both switched to evaluation mode); a model with no
  sub-module raises IndexError. Constructed with a separate head, it takes that head
  and the whole model as the body. The flag \<open>feed_target\<close>, when it is not given, is true
  when a separate head was given and false when none was; when it is given, it is
  kept.
\<close>

theorem GradCam_init_head_separation:
  "(model0 \<noteq> [] \<longrightarrow>
      (case GradCam_init model0 t None dev feed of
         Inl e \<Rightarrow> False
       | Inr g \<Rightarrow>
           head (extractor g) = eval_mode (last model0)
           \<and> model (extractor g) = map eval_mode (butlast model0)
           \<and> separate_head g = eval_mode (last model0)
           \<and> gradcam_model g = map eval_mode (butlast model0)
           \<and> feed_target (extractor g) = (case feed of None \<Rightarrow> False | Some b \<Rightarrow> b)))
   \<and> GradCam_init [] t None dev feed = Inl IndexError
   \<and> (case GradCam_init model0 t (Some h) dev feed of
         Inl e \<Rightarrow> False
       | Inr g \<Rightarrow>
           head (extractor g) = eval_mode h
           \<and> model (extractor g) = map eval_mode model0
           \<and> feed_target (extractor g) = (case feed of None \<Rightarrow> True | Some b \<Rightarrow> b))"
proof -
  have a: "case GradCam_init model0 t None dev feed of
         Inl e \<Rightarrow> False
       | Inr g \<Rightarrow>
           head (extractor g) = eval_mode (last model0)
           \<and> model (extractor g) = map eval_mode (butlast model0)
           \<and> separate_head g = eval_mode (last model0)
           \<and> gradcam_model g = map eval_mode (butlast model0)
           \<and> feed_target (extractor g) = (case feed of None \<Rightarrow> False | Some b \<Rightarrow> b)"
    if ne: "model0 \<noteq> []"
  proof -
    obtain m ms where m: "model0 = m # ms" using ne by (cases model0) auto
    show ?thesis
      unfolding m
      by (simp add: GradCam_init_def CamExtractor_init_def Let_def split: option.splits)
  qed
  have b: "GradCam_init [] t None dev feed = Inl IndexError"
    by (simp add: GradCam_init_def)
  have c: "case GradCam_init model0 t (Some h) dev feed of
         Inl e \<Rightarrow> False
       | Inr g \<Rightarrow>
           head (extractor g) = eval_mode h
           \<and> model (extractor g) = map eval_mode model0
           \<and> feed_target (extractor g) = (case feed of None \<Rightarrow> True | Some b \<Rightarrow> b)"
    by (simp add: GradCam_init_def CamExtractor_init_def Let_def split: option.splits)
  show ?thesis using a b c by blast
qed

theorem GradCam_init_head_separation_witness:
  "toy_model \<noteq> []
   \<and> GradCam_init toy_model 1 None None None = Inr (toy_gradcam 1)
   \<and> head (extractor (toy_gradcam 1)) = eval_mode sum_head
   \<and> model (extractor (toy_gradcam 1)) = [eval_mode identity_layer, eval_mode doubling_layer]
   \<and> \<not> feed_target (extractor (toy_gradcam 1))"
proof -
  have ne: "toy_model \<noteq> []" by (simp add: toy_model_def)
  show ?thesis
    using ne GradCam_init_toy [of 1]
      GradCam_init_head_separation [where ?model0.0 = toy_model and t = 1 and dev = None and feed = None]
    by (simp add: toy_model_def)
qed


section \<open>Repeated calls\<close>

lemma save_gradient_static:
  "model (save_gradient ex g) = model ex"
  "target_layer (save_gradient ex g) = target_layer ex"
  "head (save_gradient ex g) = head ex"
  "feed_target (save_gradient ex g) = feed_target ex"
  by (simp_all add: save_gradient_def)

lemma forward_pass_gradients:
  "forward_pass (save_gradient ex g) x label = forward_pass ex x label"
  by (simp add: forward_pass_def forward_pass_on_convolutions_def save_gradient_static
        cong: sum.case_cong)

lemma forward_backward_gradients:
  "forward_backward env (self\<lparr> extractor := save_gradient (extractor self) g \<rparr>) x tc =
   forward_backward env self x tc"
  by (simp add: forward_backward_def forward_pass_gradients cong: sum.case_cong)

lemma save_gradient_twice:
  "save_gradient (save_gradient ex g) g = save_gradient ex g"
  by (simp add: save_gradient_def)

text \<open>
  C9. A second call of \<open>generate_cam\<close> with the same image, class and flag, on the
  object as the first call left it, returns what the first call returned (the same
  array, or the same exception) and leaves the object in the same state. The modules
  are functions of their arguments; the only state a call reads, the gradient stored
  by the hook, is written anew by every call that registers a hook and left as it was
  by every call that registers none.
\<close>

theorem generate_cam_repeatable:
  "generate_cam env (snd (generate_cam env self input_image target_class counterfactual))
     input_image target_class counterfactual =
   generate_cam env self input_image target_class counterfactual"
proof (cases "forward_backward env self input_image target_class")
  case (Inl e)
  then show ?thesis by (simp add: generate_cam_def)
next
  case (Inr r)
  obtain conv_output fired input1 where r: "r = (conv_output, fired, input1)"
    by (cases r) auto
  show ?thesis
  proof (cases fired)
    case None
    with Inr r show ?thesis by (simp add: generate_cam_def)
  next
    case (Some g)
    with Inr r show ?thesis
      by (simp add: generate_cam_def forward_backward_gradients save_gradient_twice)
  qed
qed

end
